theory Spec2Isabelle
  imports Main "HOL-Library.Word"
begin

unbundle bit_operations_syntax

section \<open>The interface reliability tool (if-reliability)\<close>

text \<open>
  A shallow embedding of the newer of the two versions of the tool (the one with
  \<open>replaceRoute\<close>): \<open>pingIP\<close>, \<open>pingInterface\<close>, \<open>connectToWiFi\<close>,
  \<open>replaceRoute\<close> and the \<open>Run\<close> function of \<open>rootCmd\<close>; and of
  \<open>connectToWiFi\<close> in the older version (main.go), whose polling loop is the same.

  The program talks to the operating system only by running commands
  (\<open>exec.Command(...).CombinedOutput()\<close>), by sleeping and by logging. The model makes
  that explicit: a \<open>world\<close> holds the replies the operating system will give to the
  commands still to be run (\<open>script\<close>) and everything the program has done so far
  (\<open>trace\<close>). Running a command takes the next reply; when no reply is left the program
  is still waiting, which is the outcome \<open>Running\<close>. Every loop of the source consumes
  one reply per iteration at least, so every function of the model is total.

  Go's \<open>int\<close> is modelled as \<open>int\<close>: the only arithmetic of the program is the
  failure counter of \<open>pingInterface\<close>, which stays between 0 and the threshold when
  the threshold is positive.
  The goroutine of \<open>pingInterface\<close> that exits the process on an interrupt signal is
  concurrent with the loop and is not modelled.
\<close>

subsection \<open>Errors, outcomes, the world\<close>

datatype error =
    ExecError string   \<comment> \<open>the error of a command that could not run or exited non-zero\<close>
  | Errorf string      \<comment> \<open>an error made by \<open>fmt.Errorf\<close>\<close>

fun errorString :: "error \<Rightarrow> string" where
  "errorString (ExecError m) = m"
| "errorString (Errorf m) = m"

datatype level = Info | Warn | Error

type_synonym reply = "string \<times> error option"

datatype event =
    Exec "string list" reply   \<comment> \<open>a command run (its argv) and what the system answered\<close>
  | Log level string           \<comment> \<open>a line logged through zerolog\<close>
  | Sleep nat                  \<comment> \<open>\<open>time.Sleep\<close>, in seconds\<close>

record world =
  script :: "reply list"
  trace :: "event list"

datatype 'a outcome =
    Return 'a      \<comment> \<open>the function returned\<close>
  | Exit int       \<comment> \<open>\<open>os.Exit\<close>\<close>
  | Panic string   \<comment> \<open>a run-time panic\<close>
  | Running        \<comment> \<open>the script is exhausted: the program waits for the system\<close>

definition exec :: "string list \<Rightarrow> world \<Rightarrow> reply option \<times> world" where
  "exec argv w =
     (case script w of
        [] \<Rightarrow> (None, w)
      | r # rs \<Rightarrow> (Some r, w\<lparr>script := rs, trace := trace w @ [Exec argv r]\<rparr>))"

definition logMsg :: "level \<Rightarrow> string \<Rightarrow> world \<Rightarrow> world" where
  "logMsg l m w = w\<lparr>trace := trace w @ [Log l m]\<rparr>"

definition sleep :: "nat \<Rightarrow> world \<Rightarrow> world" where
  "sleep n w = w\<lparr>trace := trace w @ [Sleep n]\<rparr>"

definition bind :: "'a outcome \<times> world \<Rightarrow> ('a \<Rightarrow> world \<Rightarrow> 'b outcome \<times> world) \<Rightarrow> 'b outcome \<times> world" where
  "bind m f =
     (case m of
        (Return x, w) \<Rightarrow> f x w
      | (Exit n, w) \<Rightarrow> (Exit n, w)
      | (Panic s, w) \<Rightarrow> (Panic s, w)
      | (Running, w) \<Rightarrow> (Running, w))"

text \<open>The commands run so far, without the log lines and the sleeps.\<close>

fun commands :: "event list \<Rightarrow> string list list" where
  "commands [] = []"
| "commands (Exec argv r # es) = argv # commands es"
| "commands (e # es) = commands es"

subsection \<open>The Go library functions the program calls\<close>

text \<open>
  \<open>strings.Contains\<close>, \<open>strings.HasPrefix\<close>, \<open>strings.TrimPrefix\<close>,
  \<open>strings.TrimSuffix\<close> and \<open>strings.Split\<close>. The program splits on one-byte
  separators only (a newline, a space), so \<open>Split\<close> takes a character: it returns the
  pieces between the separators, a single piece when there is none.
\<close>

fun HasPrefix :: "string \<Rightarrow> string \<Rightarrow> bool" where
  "HasPrefix s [] = True"
| "HasPrefix [] (p # ps) = False"
| "HasPrefix (c # cs) (p # ps) = (c = p \<and> HasPrefix cs ps)"

fun Contains :: "string \<Rightarrow> string \<Rightarrow> bool" where
  "Contains [] sub = (sub = [])"
| "Contains (c # cs) sub = (HasPrefix (c # cs) sub \<or> Contains cs sub)"

definition TrimPrefix :: "string \<Rightarrow> string \<Rightarrow> string" where
  "TrimPrefix s p = (if HasPrefix s p then drop (length p) s else s)"

definition TrimSuffix :: "string \<Rightarrow> string \<Rightarrow> string" where
  "TrimSuffix s p = (if HasPrefix (rev s) (rev p) then take (length s - length p) s else s)"

fun Split :: "string \<Rightarrow> char \<Rightarrow> string list" where
  "Split [] sep = [[]]"
| "Split (c # cs) sep =
     (if c = sep then [] # Split cs sep
      else (case Split cs sep of [] \<Rightarrow> [[c]] | t # ts \<Rightarrow> (c # t) # ts))"

text \<open>\<open>strconv.Itoa\<close> and the verb \<open>%d\<close>: decimal, with a minus sign.\<close>

definition digit :: "nat \<Rightarrow> char" where
  "digit n = char_of (48 + n)"

fun digits :: "nat \<Rightarrow> string" where
  "digits n = (if n < 10 then [digit n] else digits (n div 10) @ [digit (n mod 10)])"

declare digits.simps [simp del]

definition itoa :: "int \<Rightarrow> string" where
  "itoa i = (if i < 0 then CHR ''-'' # digits (nat (- i)) else digits (nat i))"

text \<open>
  What the model does not define of the Go library is a parameter of it:
  \<^item> \<open>parseFloat s\<close> is \<open>int(f)\<close> for the \<open>f\<close> that
    \<open>strconv.ParseFloat(s, 32)\<close> returns, \<open>None\<close> when it returns an error
    (floating point is not modelled);
  \<^item> \<open>parseIPv6 s\<close> is what \<open>net.ParseIP\<close> returns for a string whose first
    separator is a colon: 16 bytes, or nil;
  \<^item> \<open>formatIP ip\<close> is \<open>ip.String()\<close> for a slice that is neither empty nor an IPv4
    address (the IPv6 and the hexadecimal forms);
  \<^item> \<open>trimSpace\<close> is \<open>strings.TrimSpace\<close> (Unicode white space).

  A \<open>net.IP\<close> and a \<open>net.IPMask\<close> are byte slices: lists of bytes here, with
  \<open>[]\<close> for nil (the program never tells nil from an empty slice but by \<open>== nil\<close>
  on the result of \<open>net.ParseIP\<close>, which is nil or 16 bytes long).
\<close>

type_synonym IP = "8 word list"

record golib =
  parseFloat :: "string \<Rightarrow> int option"
  parseIPv6 :: "string \<Rightarrow> IP"
  formatIP :: "IP \<Rightarrow> string"
  trimSpace :: "string \<Rightarrow> string"

subsection \<open>pingIP\<close>

text \<open>
  The two loops of \<open>pingIP\<close> over the lines of the output and over the parts of a
  line: \<open>Some r\<close> when the loop returns \<open>r\<close> from \<open>pingIP\<close>, \<open>None\<close> when it
  ends without returning.
\<close>

fun pingParts :: "golib \<Rightarrow> string list \<Rightarrow> int option" where
  "pingParts L [] = None"
| "pingParts L (part # parts) =
     (if HasPrefix part ''time='' then
        (let timeStr = TrimPrefix part ''time='';
             timeStr = TrimSuffix timeStr '' ms''
         in case parseFloat L timeStr of
              None \<Rightarrow> Some (- 1)
            | Some responseTime \<Rightarrow> Some responseTime)
      else pingParts L parts)"

fun pingLines :: "golib \<Rightarrow> string list \<Rightarrow> int option" where
  "pingLines L [] = None"
| "pingLines L (line # lines) =
     (if Contains line ''time='' then
        (case pingParts L (Split line CHR '' '') of
           Some r \<Rightarrow> Some r
         | None \<Rightarrow> pingLines L lines)
      else pingLines L lines)"

text \<open>What \<open>pingIP\<close> makes of the reply to its \<open>ping -c 1\<close>.\<close>

definition pingResult :: "golib \<Rightarrow> reply \<Rightarrow> int" where
  "pingResult L r =
     (case r of (outputStr, err) \<Rightarrow>
        if err \<noteq> None then - 1
        else if \<not> Contains outputStr ''1 received'' then - 1
        else (case pingLines L (Split outputStr (CHR 0x0A)) of
                Some t \<Rightarrow> t
              | None \<Rightarrow> - 1))"

definition pingIP :: "golib \<Rightarrow> string \<Rightarrow> world \<Rightarrow> int outcome \<times> world" where
  "pingIP L ip w =
     (case exec [''ping'', ''-c'', ''1'', ip] w of
        (None, w') \<Rightarrow> (Running, w')
      | (Some r, w') \<Rightarrow> (Return (pingResult L r), w'))"


subsection \<open>pingInterface\<close>

text \<open>
  The loop of \<open>pingInterface\<close>, with the failure counter as an argument. One iteration
  sleeps a second and runs one \<open>ping\<close>; the loop is left only through
  \<open>return -1\<close>.
\<close>

lemma exec_script_shorter:
  "exec argv w = (Some r, w') \<Longrightarrow> length (script w') < length (script w)"
  by (auto simp: exec_def split: list.splits)

lemma pingIP_script_shorter:
  "pingIP L ip w = (Return t, w') \<Longrightarrow> length (script w') < length (script w)"
  by (auto simp: pingIP_def split: prod.splits option.splits dest: exec_script_shorter)

text \<open>The line \<open>"Failed to ping %s. Attempt %d out of %d. Retrying..."\<close>.\<close>

definition attemptMsg :: "string \<Rightarrow> int \<Rightarrow> int \<Rightarrow> string" where
  "attemptMsg endpoint failures retry =
     ''Failed to ping '' @ endpoint @ ''. Attempt '' @ itoa failures
       @ '' out of '' @ itoa retry @ ''. Retrying...''"

function pingLoop :: "golib \<Rightarrow> string \<Rightarrow> int \<Rightarrow> int \<Rightarrow> world \<Rightarrow> int outcome \<times> world" where
  "pingLoop L endpoint retry failures w =
     (case pingIP L endpoint (sleep 1 w) of
        (Return responseTime, w1) \<Rightarrow>
          if responseTime \<noteq> - 1 then pingLoop L endpoint retry 0 w1
          else
            (let failures' = failures + 1;
                 w2 = logMsg Warn (attemptMsg endpoint failures' retry) w1
             in if failures' \<ge> retry then (Return (- 1), w2)
                else pingLoop L endpoint retry failures' w2)
      | (Exit n, w1) \<Rightarrow> (Exit n, w1)
      | (Panic s, w1) \<Rightarrow> (Panic s, w1)
      | (Running, w1) \<Rightarrow> (Running, w1))"
  by pat_completeness auto
termination
  apply (relation "measure (\<lambda>(L, endpoint, retry, failures, w). length (script w))")
    apply simp
   apply (auto simp: sleep_def logMsg_def dest!: pingIP_script_shorter [OF sym])
  done

declare pingLoop.simps [simp del]

definition pingInterface :: "golib \<Rightarrow> string \<Rightarrow> int \<Rightarrow> world \<Rightarrow> int outcome \<times> world" where
  "pingInterface L endpoint retry w =
     pingLoop L endpoint retry 0 (logMsg Info (''Pinging endpoint '' @ endpoint) w)"

subsection \<open>The functions of package net that replaceRoute calls\<close>

text \<open>
  \<open>net.ParseIP\<close> looks for the first of \<open>.\<close>, \<open>:\<close> and \<open>%\<close> in the string and
  parses a dotted IPv4 address, an IPv6 address, or fails. An IPv4 address is four decimal
  fields of one to three digits, none above 255 and none with a leading zero; the result
  is its 16-byte form, after the prefix of IPv4-mapped addresses.
\<close>

definition v4InV6Prefix :: IP where
  "v4InV6Prefix = [0, 0, 0, 0, 0, 0, 0, 0, 0, 0, 0xff, 0xff]"

definition isDigit :: "char \<Rightarrow> bool" where
  "isDigit c = (48 \<le> (of_char c :: nat) \<and> (of_char c :: nat) \<le> 57)"

text \<open>
  The loop of \<open>parseIPv4Fields\<close> over the bytes of the string: \<open>prev\<close> is the byte
  before the current one (\<open>None\<close> at index 0), \<open>flds\<close> the fields stored so far
  (\<open>pos\<close> is their number).
\<close>

fun parseIPv4Fields :: "char option \<Rightarrow> nat \<Rightarrow> nat \<Rightarrow> IP \<Rightarrow> string \<Rightarrow> IP option" where
  "parseIPv4Fields prev val digLen flds [] =
     (if length flds < 3 then None else Some (flds @ [of_nat val]))"
| "parseIPv4Fields prev val digLen flds (c # cs) =
     (if isDigit c then
        (if digLen = 1 \<and> val = 0 then None
         else
           (let val' = val * 10 + (of_char c - 48)
            in if val' > 255 then None
               else parseIPv4Fields (Some c) val' (digLen + 1) flds cs))
      else if c = CHR ''.'' then
        (if prev = None \<or> cs = [] \<or> prev = Some CHR ''.'' then None
         else if length flds = 3 then None
         else parseIPv4Fields (Some c) 0 0 (flds @ [of_nat val]) cs)
      else None)"

definition parseIPv4 :: "string \<Rightarrow> IP option" where
  "parseIPv4 s = parseIPv4Fields None 0 0 [] s"

fun firstSeparator :: "string \<Rightarrow> char option" where
  "firstSeparator [] = None"
| "firstSeparator (c # cs) =
     (if c = CHR ''.'' \<or> c = CHR '':'' \<or> c = CHR ''%'' then Some c else firstSeparator cs)"

definition ParseIP :: "golib \<Rightarrow> string \<Rightarrow> IP" where
  "ParseIP L s =
     (case firstSeparator s of
        None \<Rightarrow> []
      | Some c \<Rightarrow>
          if c = CHR ''.'' then (case parseIPv4 s of None \<Rightarrow> [] | Some f \<Rightarrow> v4InV6Prefix @ f)
          else if c = CHR '':'' then parseIPv6 L s
          else [])"

text \<open>
  \<open>net.CIDRMask(ones, bits)\<close>: nil unless \<open>bits\<close> is 32 or 128 and
  \<open>0 \<le> ones \<le> bits\<close>; else \<open>bits / 8\<close> bytes, whole bytes of ones first, then
  \<open>^byte(0xff >> n)\<close>, then zeros.
\<close>

fun cidrMaskLoop :: "nat \<Rightarrow> nat \<Rightarrow> 8 word list" where
  "cidrMaskLoop 0 n = []"
| "cidrMaskLoop (Suc l) n =
     (if n \<ge> 8 then 0xff # cidrMaskLoop l (n - 8)
      else NOT (drop_bit n (0xff :: 8 word)) # cidrMaskLoop l 0)"

definition CIDRMask :: "int \<Rightarrow> int \<Rightarrow> 8 word list" where
  "CIDRMask ones bits =
     (if bits \<noteq> 32 \<and> bits \<noteq> 128 then []
      else if ones < 0 \<or> ones > bits then []
      else cidrMaskLoop (nat (bits div 8)) (nat ones))"

text \<open>\<open>ip.Mask(mask)\<close>: nil when the lengths differ after the IPv4 adjustments.\<close>

definition Mask :: "IP \<Rightarrow> 8 word list \<Rightarrow> IP" where
  "Mask ip ipmask =
     (let mask1 = (if length ipmask = 16 \<and> length ip = 4 \<and> list_all (\<lambda>b. b = 0xff) (take 12 ipmask)
                   then drop 12 ipmask else ipmask);
          ip1 = (if length mask1 = 4 \<and> length ip = 16 \<and> take 12 ip = v4InV6Prefix
                 then drop 12 ip else ip)
      in if length ip1 \<noteq> length mask1 then [] else map2 (AND) ip1 mask1)"

text \<open>
  \<open>ip.String()\<close>, which the verb \<open>%s\<close> prints: \<open><nil>\<close> for an empty slice, the
  dotted form for an IPv4 address (4 bytes, or 16 bytes with the IPv4-mapped prefix).
\<close>

definition dotted :: "IP \<Rightarrow> string" where
  "dotted ip =
     itoa (uint (ip ! 0)) @ ''.'' @ itoa (uint (ip ! 1)) @ ''.'' @ itoa (uint (ip ! 2))
       @ ''.'' @ itoa (uint (ip ! 3))"

definition IPString :: "golib \<Rightarrow> IP \<Rightarrow> string" where
  "IPString L ip =
     (if length ip = 0 then ''<nil>''
      else if length ip = 4 then dotted ip
      else if length ip = 16 \<and> take 12 ip = v4InV6Prefix then dotted (drop 12 ip)
      else formatIP L ip)"

subsection \<open>connectToWiFi\<close>

lemma pingIP_script_shorter_eq:
  "(Return t, w') = pingIP L ip w \<Longrightarrow> length (script w') < length (script w)"
  by (rule pingIP_script_shorter [OF sym])

lemma exec_script_shorter_eq:
  "(Some r, w') = exec argv w \<Longrightarrow> length (script w') < length (script w)"
  by (rule exec_script_shorter [OF sym])

text \<open>
  The polling loop of \<open>connectToWiFi\<close>. Indexing the split output at 2 panics when
  there are fewer than three pieces.
\<close>

function pollLoop :: "golib \<Rightarrow> string \<Rightarrow> world \<Rightarrow> (string \<times> error option) outcome \<times> world" where
  "pollLoop L ifwifi w =
     (case exec [''ip'', ''route'', ''show'', ''default'', ''dev'', ifwifi] (sleep 1 w) of
        (None, w1) \<Rightarrow> (Running, w1)
      | (Some (output, err), w1) \<Rightarrow>
          (case err of
             Some e \<Rightarrow>
               (Return ('''', None),
                logMsg Error (''Error getting default route after connecting to WiFi: ''
                              @ errorString e) w1)
           | None \<Rightarrow>
               (let parts = Split output CHR '' ''
                in if length parts \<le> 2
                   then (Panic (''runtime error: index out of range [2] with length ''
                                @ itoa (int (length parts))), w1)
                   else
                     (let route = parts ! 2;
                          w2 = logMsg Info (''Pinging default router: '' @ route) w1
                      in case pingIP L route w2 of
                           (Return responseTime, w3) \<Rightarrow>
                             if responseTime \<noteq> - 1 then (Return (route, None), w3)
                             else pollLoop L ifwifi w3
                         | (Exit n, w3) \<Rightarrow> (Exit n, w3)
                         | (Panic m, w3) \<Rightarrow> (Panic m, w3)
                         | (Running, w3) \<Rightarrow> (Running, w3)))))"
  by pat_completeness auto
termination
  apply (relation "measure (\<lambda>(L, ifwifi, w). length (script w))")
   apply simp
  apply (auto simp: sleep_def logMsg_def dest!: pingIP_script_shorter_eq exec_script_shorter_eq)
  done

declare pollLoop.simps [simp del]

definition connectToWiFi ::
  "golib \<Rightarrow> string \<Rightarrow> string \<Rightarrow> string \<Rightarrow> world \<Rightarrow> (string \<times> error option) outcome \<times> world" where
  "connectToWiFi L ifwifi bssid password w =
     (case exec [''nmcli'', ''d'', ''wifi'', ''connect'', bssid, ''password'', password,
                 ''ifname'', ifwifi] w of
        (None, w1) \<Rightarrow> (Running, w1)
      | (Some (output, err), w1) \<Rightarrow>
          (case err of
             Some e \<Rightarrow> (Return ('''', Some e), w1)
           | None \<Rightarrow> pollLoop L ifwifi (logMsg Info output w1)))"

subsection \<open>connectToWiFi in the older version (main.go)\<close>

text \<open>
  The older version joins the network with \<open>iwconfig\<close> and \<open>dhclient\<close> and returns
  an error only; its \<open>pingIP\<close> looks for \<open>1 packets received\<close>. Its polling loop
  indexes the split output in the same way.
\<close>

definition pingResult_v1 :: "golib \<Rightarrow> reply \<Rightarrow> int" where
  "pingResult_v1 L r =
     (case r of (outputStr, err) \<Rightarrow>
        if err \<noteq> None then - 1
        else if \<not> Contains outputStr ''1 packets received'' then - 1
        else (case pingLines L (Split outputStr (CHR 0x0A)) of
                Some t \<Rightarrow> t
              | None \<Rightarrow> - 1))"

definition pingIP_v1 :: "golib \<Rightarrow> string \<Rightarrow> world \<Rightarrow> int outcome \<times> world" where
  "pingIP_v1 L ip w =
     (case exec [''ping'', ''-c'', ''1'', ip] w of
        (None, w') \<Rightarrow> (Running, w')
      | (Some r, w') \<Rightarrow> (Return (pingResult_v1 L r), w'))"

lemma pingIP_v1_script_shorter_eq:
  "(Return t, w') = pingIP_v1 L ip w \<Longrightarrow> length (script w') < length (script w)"
  by (auto simp: pingIP_v1_def split: prod.splits option.splits dest: exec_script_shorter)

function pollLoop_v1 :: "golib \<Rightarrow> string \<Rightarrow> world \<Rightarrow> error option outcome \<times> world" where
  "pollLoop_v1 L ifwifi w =
     (case exec [''ip'', ''route'', ''show'', ''default'', ''dev'', ifwifi] (sleep 1 w) of
        (None, w1) \<Rightarrow> (Running, w1)
      | (Some (output, err), w1) \<Rightarrow>
          (case err of
             Some e \<Rightarrow>
               (Return None,
                logMsg Error (''Error getting default route after connecting to WiFi: ''
                              @ errorString e) w1)
           | None \<Rightarrow>
               (let parts = Split output CHR '' ''
                in if length parts \<le> 2
                   then (Panic (''runtime error: index out of range [2] with length ''
                                @ itoa (int (length parts))), w1)
                   else
                     (let route = parts ! 2
                      in case pingIP_v1 L route w1 of
                           (Return responseTime, w3) \<Rightarrow>
                             if responseTime \<noteq> - 1 then (Return None, w3)
                             else pollLoop_v1 L ifwifi w3
                         | (Exit n, w3) \<Rightarrow> (Exit n, w3)
                         | (Panic m, w3) \<Rightarrow> (Panic m, w3)
                         | (Running, w3) \<Rightarrow> (Running, w3)))))"
  by pat_completeness auto
termination
  apply (relation "measure (\<lambda>(L, ifwifi, w). length (script w))")
   apply simp
  apply (auto simp: sleep_def dest!: pingIP_v1_script_shorter_eq exec_script_shorter_eq)
  done

declare pollLoop_v1.simps [simp del]

definition connectToWiFi_v1 ::
  "golib \<Rightarrow> string \<Rightarrow> string \<Rightarrow> string \<Rightarrow> world \<Rightarrow> error option outcome \<times> world" where
  "connectToWiFi_v1 L ifwifi bssid password w =
     (case exec [''iwconfig'', ifwifi, ''essid'', bssid] w of
        (None, w1) \<Rightarrow> (Running, w1)
      | (Some (output, err), w1) \<Rightarrow>
          (case err of
             Some e \<Rightarrow> (Return (Some e), w1)
           | None \<Rightarrow>
               (case exec [''iwconfig'', ifwifi, ''key'', password] (logMsg Info output w1) of
                  (None, w2) \<Rightarrow> (Running, w2)
                | (Some (output, err), w2) \<Rightarrow>
                    (case err of
                       Some e \<Rightarrow> (Return (Some e), w2)
                     | None \<Rightarrow>
                         (case exec [''dhclient'', ifwifi] (logMsg Info output w2) of
                            (None, w3) \<Rightarrow> (Running, w3)
                          | (Some (output, err), w3) \<Rightarrow>
                              (case err of
                                 Some e \<Rightarrow> (Return (Some e), w3)
                               | None \<Rightarrow> pollLoop_v1 L ifwifi (logMsg Info output w3)))))))"

subsection \<open>replaceRoute\<close>

definition replaceRoute ::
  "golib \<Rightarrow> string \<Rightarrow> int \<Rightarrow> string \<Rightarrow> string \<Rightarrow> world \<Rightarrow> error option outcome \<times> world" where
  "replaceRoute L ipv4 cidrMask ifname router w =
     (let ip = ParseIP L ipv4
      in if ip = [] then
           (Return (Some (Errorf (''invalid IP address: '' @ ipv4))),
            logMsg Error (''invalid IP address: '' @ ipv4) w)
         else
           (let ipmask = CIDRMask cidrMask 32;
                network = Mask ip ipmask;
                w1 = logMsg Info (''Network address: '' @ IPString L network) w;
                cidr = IPString L network @ ''/'' @ itoa cidrMask;
                w2 = logMsg Info (''Replacing default route for network '' @ cidr) w1
            in case exec [''ip'', ''route'', ''replace'', cidr, ''via'', router, ''dev'', ifname] w2 of
                 (None, w3) \<Rightarrow> (Running, w3)
               | (Some (output, err), w3) \<Rightarrow>
                   (case err of
                      Some e \<Rightarrow>
                        (let m = ''failed to replace route: '' @ errorString e @ '', output: ''
                                   @ trimSpace L output
                         in (Return (Some (Errorf m)), logMsg Error m w3))
                    | None \<Rightarrow> (Return None, w3))))"

subsection \<open>The flags and rootCmd.Run\<close>

text \<open>
  \<open>init\<close> declares four string flags and the integer flag \<open>retry\<close>, whose default
  is 5. \<open>flags\<close> holds their values after the command line is parsed;
  \<open>GetString\<close> returns the value of a string flag, and the empty string with an error
  for a flag of another type or an unknown name.
\<close>

record flags =
  flag_wifi_if :: string
  flag_wifi_ssid :: string
  flag_wifi_password :: string
  flag_endpoint :: string
  flag_retry :: int

definition init :: flags where
  "init = \<lparr>flag_wifi_if = '''', flag_wifi_ssid = '''', flag_wifi_password = '''', flag_endpoint = '''', flag_retry = 5\<rparr>"

definition GetString :: "flags \<Rightarrow> string \<Rightarrow> string \<times> error option" where
  "GetString fs name =
     (if name = ''wifi-if'' then (flag_wifi_if fs, None)
      else if name = ''wifi-ssid'' then (flag_wifi_ssid fs, None)
      else if name = ''wifi-password'' then (flag_wifi_password fs, None)
      else if name = ''endpoint'' then (flag_endpoint fs, None)
      else if name = ''retry'' then
        ('''', Some (Errorf ''trying to get string value of flag of type int''))
      else ('''', Some (Errorf (''flag accessed but not defined: '' @ name))))"

definition Run :: "golib \<Rightarrow> flags \<Rightarrow> world \<Rightarrow> unit outcome \<times> world" where
  "Run L fs w =
     (let w = logMsg Info ''Starting Interface Reliability tool...'' w;
          wifiIF = fst (GetString fs ''wifi-if'');
          wifiSSID = fst (GetString fs ''wifi-ssid'');
          wifiPassword = fst (GetString fs ''wifi-password'');
          endPoint = fst (GetString fs ''endpoint'');
          retry = fst (GetString fs ''retry'');
          w = logMsg Info ''Starting Interface Reliability tool with:'' w;
          w = logMsg Info (''- WiFi interface: '' @ wifiIF) w;
          w = logMsg Info (''- WiFi SSID: '' @ wifiSSID) w;
          w = logMsg Info (''- WiFi password: '' @ wifiPassword) w;
          w = logMsg Info (''- Endpoint to check connectivity: '' @ endPoint) w;
          w = logMsg Info (''- Max retry: '' @ retry) w
      in bind (pingInterface L endPoint 5 w) (\<lambda>_ w.
           bind (connectToWiFi L wifiIF wifiSSID wifiPassword
                   (logMsg Error (''Ping toward '' @ endPoint @ '' endpoint failed'') w))
             (\<lambda>(router, err) w.
                case err of
                  Some e \<Rightarrow> (Exit 1, logMsg Error (''Error connecting to WiFi: '' @ errorString e) w)
                | None \<Rightarrow>
                    bind (replaceRoute L endPoint 24 wifiIF router
                            (logMsg Info (''Successfully connected to WiFi with SSID '' @ wifiSSID) w))
                      (\<lambda>_ w.
                         bind (pingInterface L endPoint 5
                                 (logMsg Info (''Successfully changed default route to '' @ wifiIF) w))
                           (\<lambda>_ w. (Return (), w))))))"

section \<open>Properties\<close>

subsection \<open>Definitions used to state the properties\<close>

text \<open>
  A reply to \<open>ping\<close> is unreachable when \<open>pingIP\<close> turns it into \<open>-1\<close>. The
  failure run of a sequence of replies is the number of unreachable replies at its end.
  \<open>pingsUsed w w'\<close> counts the replies consumed between two worlds.
\<close>

definition unreachable :: "golib \<Rightarrow> reply \<Rightarrow> bool" where
  "unreachable L r = (pingResult L r = - 1)"

definition failureRun :: "golib \<Rightarrow> reply list \<Rightarrow> nat" where
  "failureRun L rs = length (takeWhile (unreachable L) (rev rs))"

definition pingsUsed :: "world \<Rightarrow> world \<Rightarrow> nat" where
  "pingsUsed w w' = length (script w) - length (script w')"

text \<open>
  The loop of \<open>pingInterface\<close> without the world, over the sequence of probe results
  (\<open>True\<close> for unreachable): the number of probes after which it returns, if it does;
  and the value of its counter after a sequence of probes.
\<close>

fun downAt :: "int \<Rightarrow> int \<Rightarrow> bool list \<Rightarrow> nat option" where
  "downAt t f [] = None"
| "downAt t f (b # bs) =
     (if \<not> b then map_option Suc (downAt t 0 bs)
      else if f + 1 \<ge> t then Some 1
      else map_option Suc (downAt t (f + 1) bs))"

fun counter :: "int \<Rightarrow> bool list \<Rightarrow> int" where
  "counter f [] = f"
| "counter f (b # bs) = counter (if b then f + 1 else 0) bs"

text \<open>The command lines the program runs.\<close>

definition ping :: "string \<Rightarrow> string list" where
  "ping ip = [''ping'', ''-c'', ''1'', ip]"

definition wifiConnect :: "string \<Rightarrow> string \<Rightarrow> string \<Rightarrow> string list" where
  "wifiConnect ifwifi bssid password =
     [''nmcli'', ''d'', ''wifi'', ''connect'', bssid, ''password'', password, ''ifname'', ifwifi]"

definition routeShow :: "string \<Rightarrow> string list" where
  "routeShow ifwifi = [''ip'', ''route'', ''show'', ''default'', ''dev'', ifwifi]"

definition routeReplace :: "string \<Rightarrow> string \<Rightarrow> string \<Rightarrow> string list" where
  "routeReplace cidr router ifname =
     [''ip'', ''route'', ''replace'', cidr, ''via'', router, ''dev'', ifname]"

text \<open>
  The CIDR notation that \<open>replaceRoute\<close> builds (its variable \<open>cidr\<close>) from the
  endpoint and the prefix length, and bit \<open>k\<close> of an address, counted from its most
  significant bit.
\<close>

definition routeCIDR :: "golib \<Rightarrow> string \<Rightarrow> int \<Rightarrow> string" where
  "routeCIDR L ipv4 cidrMask =
     IPString L (Mask (ParseIP L ipv4) (CIDRMask cidrMask 32)) @ ''/'' @ itoa cidrMask"

definition addrBit :: "IP \<Rightarrow> nat \<Rightarrow> bool" where
  "addrBit ip k = bit (ip ! (k div 8)) (7 - k mod 8)"

text \<open>The decimal text of a byte, written out: one to three digits, no leading zero.\<close>

definition byteText :: "8 word \<Rightarrow> string" where
  "byteText b =
     (let n = unat b
      in if n < 10 then [char_of (48 + n)]
         else if n < 100 then [char_of (48 + n div 10), char_of (48 + n mod 10)]
         else [char_of (48 + n div 100), char_of (48 + n div 10 mod 10), char_of (48 + n mod 10)])"

text \<open>The lines \<open>Run\<close> logs before it starts monitoring.\<close>

definition announce :: "flags \<Rightarrow> world \<Rightarrow> world" where
  "announce fs w =
     logMsg Info (''- Max retry: '' @ '''')
       (logMsg Info (''- Endpoint to check connectivity: '' @ flag_endpoint fs)
         (logMsg Info (''- WiFi password: '' @ flag_wifi_password fs)
           (logMsg Info (''- WiFi SSID: '' @ flag_wifi_ssid fs)
             (logMsg Info (''- WiFi interface: '' @ flag_wifi_if fs)
               (logMsg Info ''Starting Interface Reliability tool with:''
                 (logMsg Info ''Starting Interface Reliability tool...'' w))))))"

text \<open>
  A library, flags and replies for the examples: a \<open>ping\<close> answered in 12.3 ms, a
  \<open>ping\<close> that lost its packet, a command that succeeded with no output, a join that
  was refused, a default route through 192.168.1.1, a default route with no gateway, a
  query for a device that does not exist, and two refused route changes.
\<close>

definition lib0 :: golib where
  "lib0 = \<lparr>parseFloat = (\<lambda>s. if s = ''12.3'' then Some 12 else None),
           parseIPv6 = (\<lambda>s. []), formatIP = (\<lambda>ip. ''?''), trimSpace = (\<lambda>s. s)\<rparr>"

definition flags0 :: flags where
  "flags0 = \<lparr>flag_wifi_if = ''wlan0'', flag_wifi_ssid = ''net'', flag_wifi_password = ''pw'',
             flag_endpoint = ''8.8.8.8'', flag_retry = 5\<rparr>"

definition pingOK :: reply where
  "pingOK = (''64 bytes from 8.8.8.8: icmp_seq=1 ttl=117 time=12.3 ms'' @ [CHR 0x0A]
            @ ''1 packets transmitted, 1 received, 0% packet loss'', None)"

definition pingFail :: reply where
  "pingFail = (''1 packets transmitted, 0 received, 100% packet loss'',
               Some (ExecError ''exit status 1''))"

definition silentOK :: reply where
  "silentOK = ('''', None)"

definition joinRejected :: reply where
  "joinRejected = (''Error: Connection activation failed: Secrets were required, but not provided.'',
                   Some (ExecError ''exit status 4''))"

definition routeLine :: reply where
  "routeLine = (''default via 192.168.1.1 dev wlan0 proto dhcp metric 600'', None)"

definition linkLine :: reply where
  "linkLine = (''default dev wlan0 scope link'', None)"

definition noDevice :: reply where
  "noDevice = (''Cannot find device wlan0'', Some (ExecError ''exit status 1''))"

definition routeRejected :: reply where
  "routeRejected = (''RTNETLINK answers: Operation not permitted'',
                    Some (ExecError ''exit status 2''))"

definition ipRejected :: reply where
  "ipRejected = (''Error: inet prefix is expected rather than <nil>/33.'',
                 Some (ExecError ''exit status 1''))"

definition world0 :: "reply list \<Rightarrow> world" where
  "world0 rs = \<lparr>script = rs, trace = []\<rparr>"

subsection \<open>Worlds, traces and commands\<close>

lemma script_logMsg [simp]: "script (logMsg l m w) = script w"
  by (simp add: logMsg_def)

lemma script_sleep [simp]: "script (sleep n w) = script w"
  by (simp add: sleep_def)

lemma commands_append [simp]: "commands (xs @ ys) = commands xs @ commands ys"
  by (induction xs rule: commands.induct) auto

lemma trace_logMsg [simp]: "commands (trace (logMsg l m w)) = commands (trace w)"
  by (simp add: logMsg_def)

lemma script_announce [simp]: "script (announce fs w) = script w"
  by (simp add: announce_def)

lemma commands_announce [simp]: "commands (trace (announce fs w)) = commands (trace w)"
  by (simp add: announce_def)

lemma bind_Return [simp]: "bind (Return x, w) f = f x w"
  by (simp add: bind_def)

lemma eq_fst_snd: "fst p = a \<Longrightarrow> p = (a, snd p)"
  by (cases p) simp

subsection \<open>The liveness monitor\<close>

lemma counter_snoc: "counter f (bs @ [b]) = (if b then counter f bs + 1 else 0)"
  by (induction bs arbitrary: f) auto

lemma counter_failureRun:
  "counter 0 (map (unreachable L) rs) = int (failureRun L rs)"
  by (induction rs rule: rev_induct) (auto simp: counter_snoc failureRun_def)

lemma downAt_iff:
  "0 \<le> f \<Longrightarrow> f < t \<Longrightarrow>
   downAt t f bs = Some n \<longleftrightarrow>
     (n \<le> length bs \<and> counter f (take n bs) = t \<and> (\<forall>m<n. counter f (take m bs) < t))"
proof (induction bs arbitrary: f n)
  case Nil
  then show ?case by auto
next
  case (Cons b bs)
  show ?case
  proof (cases n)
    case 0
    with Cons.prems show ?thesis by auto
  next
    case (Suc k)
    show ?thesis
    proof (cases b)
      case False
      have "0 \<le> (0::int)" "0 < t" using Cons.prems by auto
      show ?thesis
        by (simp add: False Suc Cons.prems Cons.IH [OF \<open>0 \<le> (0::int)\<close> \<open>0 < t\<close>, of k] All_less_Suc2)
    next
      case True
      show ?thesis
      proof (cases "f + 1 \<ge> t")
        case ge: True
        then have ft: "f + 1 = t" using Cons.prems by simp
        show ?thesis
        proof (cases k)
          case 0
          with True Suc ft Cons.prems show ?thesis by simp
        next
          case (Suc j)
          have "counter f (take 1 (b # bs)) = t" "1 < n"
            using True ft Suc \<open>n = Suc k\<close> by simp_all
          then have "\<not> (\<forall>m<n. counter f (take m (b # bs)) < t)"
            by (metis less_irrefl)
          with True ge Suc \<open>n = Suc k\<close> show ?thesis by simp
        qed
      next
        case False
        then have *: "0 \<le> f + 1" "f + 1 < t" using Cons.prems by auto
        show ?thesis
          by (simp add: True False Suc Cons.prems Cons.IH [OF *, of k] All_less_Suc2)
      qed
    qed
  qed
qed

lemma pingLoop_Nil: "script w = [] \<Longrightarrow> pingLoop L e t f w = (Running, sleep 1 w)"
  by (subst pingLoop.simps) (simp add: pingIP_def exec_def sleep_def)

lemma pingLoop_Cons:
  "script w = r # rs \<Longrightarrow>
   pingLoop L e t f w =
     (let w1 = w\<lparr>script := rs, trace := trace w @ [Sleep 1, Exec [''ping'', ''-c'', ''1'', e] r]\<rparr>
      in if pingResult L r \<noteq> - 1 then pingLoop L e t 0 w1
         else
           (let w2 = logMsg Warn (attemptMsg e (f + 1) t) w1
            in if f + 1 \<ge> t then (Return (- 1), w2) else pingLoop L e t (f + 1) w2))"
  by (subst pingLoop.simps) (simp add: pingIP_def exec_def sleep_def Let_def)

lemma pingLoop_downAt:
  "fst (pingLoop L e t f w) =
     (case downAt t f (map (unreachable L) (script w)) of Some n \<Rightarrow> Return (- 1) | None \<Rightarrow> Running)
   \<and> length (script (snd (pingLoop L e t f w))) =
     (case downAt t f (map (unreachable L) (script w)) of Some n \<Rightarrow> length (script w) - n | None \<Rightarrow> 0)"
proof (induction "script w" arbitrary: w f)
  case Nil
  then show ?case
    by (simp add: pingLoop_Nil [OF Nil [symmetric]] Nil [symmetric] sleep_def)
next
  case (Cons r rs)
  define w1 where "w1 = w\<lparr>script := rs, trace := trace w @ [Sleep 1, Exec [''ping'', ''-c'', ''1'', e] r]\<rparr>"
  define w2 where "w2 = logMsg Warn (attemptMsg e (f + 1) t) w1"
  have s1: "rs = script w1" and s2: "rs = script w2"
    by (simp_all add: w1_def w2_def logMsg_def)
  note step = pingLoop_Cons [OF Cons(2) [symmetric], of L e t f, folded w1_def, folded w2_def]
  show ?case
  proof (cases "pingResult L r \<noteq> - 1")
    case True
    with Cons(1) [OF s1, of 0] show ?thesis
      by (simp add: step Let_def Cons(2) [symmetric] unreachable_def s1 [symmetric] split: option.splits)
  next
    case False
    show ?thesis
    proof (cases "f + 1 \<ge> t")
      case True
      with False show ?thesis
        by (simp add: step Let_def Cons(2) [symmetric] unreachable_def s1 [symmetric])
    next
      case nge: False
      with False Cons(1) [OF s2, of "f + 1"] show ?thesis
        by (simp add: step Let_def Cons(2) [symmetric] unreachable_def s2 [symmetric] w2_def [symmetric]
              split: option.splits)
    qed
  qed
qed

text \<open>
  Claim C1. For every threshold \<open>t \<ge> 1\<close> and every sequence of probe results,
  \<open>pingInterface\<close> returns \<open>-1\<close> (Down) after exactly \<open>n\<close> probes if and only if
  \<open>n\<close> is the first length at which the run of consecutive unreachable probes at the
  end of the first \<open>n\<close> probes is \<open>t\<close>: a reachable probe sets the run back to 0, an
  unreachable one makes it one longer, and the monitor returns on the \<open>t\<close>-th
  consecutive failure and not before.
\<close>

theorem pingInterface_down_iff:
  assumes "1 \<le> t"
  shows "(fst (pingInterface L e t w) = Return (- 1) \<and> pingsUsed w (snd (pingInterface L e t w)) = n)
     \<longleftrightarrow> (n \<le> length (script w) \<and> int (failureRun L (take n (script w))) = t
          \<and> (\<forall>m<n. int (failureRun L (take m (script w))) < t))"
proof -
  let ?w0 = "logMsg Info (''Pinging endpoint '' @ e) w"
  let ?bs = "map (unreachable L) (script w)"
  have sw: "script ?w0 = script w" by simp
  note A = pingLoop_downAt [of L e t 0 ?w0, unfolded sw]
  have B: "downAt t 0 ?bs = Some k \<longleftrightarrow>
      (k \<le> length (script w) \<and> int (failureRun L (take k (script w))) = t
          \<and> (\<forall>m<k. int (failureRun L (take m (script w))) < t))" for k
    using downAt_iff [of 0 t ?bs k] assms
    by (simp add: take_map counter_failureRun)
  show ?thesis
  proof (cases "downAt t 0 ?bs")
    case None
    with A B [of n] show ?thesis by (simp add: pingInterface_def)
  next
    case (Some k)
    with B [of k] have k: "k \<le> length (script w)" by simp
    from Some A have "fst (pingInterface L e t w) = Return (- 1)"
      and "pingsUsed w (snd (pingInterface L e t w)) = k"
      using k by (simp_all add: pingInterface_def pingsUsed_def)
    with B [of n] Some show ?thesis by auto
  qed
qed

text \<open>
  With threshold 3 and the probes failed, failed, answered, failed, failed, failed (and
  one more reply that is never used), the monitor returns after the sixth probe.
\<close>

theorem pingInterface_down_iff_witness:
  "(1::int) \<le> 3
   \<and> fst (pingInterface lib0 ''8.8.8.8'' 3
            (world0 [pingFail, pingFail, pingOK, pingFail, pingFail, pingFail, pingOK]))
       = Return (- 1)
   \<and> pingsUsed (world0 [pingFail, pingFail, pingOK, pingFail, pingFail, pingFail, pingOK])
        (snd (pingInterface lib0 ''8.8.8.8'' 3
               (world0 [pingFail, pingFail, pingOK, pingFail, pingFail, pingFail, pingOK]))) = 6
   \<and> failureRun lib0
        (take 6 (script (world0 [pingFail, pingFail, pingOK, pingFail, pingFail, pingFail, pingOK])))
       = 3"
proof -
  let ?w = "world0 [pingFail, pingFail, pingOK, pingFail, pingFail, pingFail, pingOK]"
  have h: "(1::int) \<le> 3" by simp
  have run: "fst (pingInterface lib0 ''8.8.8.8'' 3 ?w) = Return (- 1)
      \<and> pingsUsed ?w (snd (pingInterface lib0 ''8.8.8.8'' 3 ?w)) = 6"
    by code_simp
  with pingInterface_down_iff [OF h, of lib0 "''8.8.8.8''" ?w 6]
  have "int (failureRun lib0 (take 6 (script ?w))) = 3" by blast
  with run show ?thesis by simp
qed

text \<open>
  The monitor consumes a prefix of the script, runs one \<open>ping\<close> per reply it consumes
  and nothing else, and its outcome depends on the script only.
\<close>

lemma pingLoop_frame:
  "script (snd (pingLoop L e t f w))
     = drop (pingsUsed w (snd (pingLoop L e t f w))) (script w)
   \<and> length (script (snd (pingLoop L e t f w))) \<le> length (script w)
   \<and> commands (trace (snd (pingLoop L e t f w)))
     = commands (trace w) @ replicate (pingsUsed w (snd (pingLoop L e t f w))) (ping e)"
proof (induction "script w" arbitrary: w f)
  case Nil
  then show ?case
    by (simp add: pingLoop_Nil [OF Nil [symmetric]] Nil [symmetric] pingsUsed_def sleep_def)
next
  case (Cons r rs)
  define w1 where
    "w1 = w\<lparr>script := rs, trace := trace w @ [Sleep 1, Exec [''ping'', ''-c'', ''1'', e] r]\<rparr>"
  define w2 where "w2 = logMsg Warn (attemptMsg e (f + 1) t) w1"
  have s1: "rs = script w1" and s2: "rs = script w2"
    by (simp_all add: w1_def w2_def)
  have t1: "commands (trace w1) = commands (trace w) @ [ping e]"
    and t2: "commands (trace w2) = commands (trace w) @ [ping e]"
    by (simp_all add: w1_def w2_def ping_def)
  have used: "pingsUsed w v = Suc (pingsUsed w1 v)" "pingsUsed w v = Suc (pingsUsed w2 v)"
    if "length (script v) \<le> length rs" for v
    using that Cons(2) [symmetric] by (simp_all add: pingsUsed_def s1 [symmetric] s2 [symmetric])
  note step = pingLoop_Cons [OF Cons(2) [symmetric], of L e t f, folded w1_def, folded w2_def]
  show ?case
  proof (cases "pingResult L r \<noteq> - 1")
    case True
    with Cons(1) [OF s1, of 0] used(1) [of "snd (pingLoop L e t 0 w1)"] show ?thesis
      by (simp add: step Let_def Cons(2) [symmetric] s1 [symmetric] t1 replicate_app_Cons_same)
  next
    case False
    show ?thesis
    proof (cases "f + 1 \<ge> t")
      case True
      with False show ?thesis
        by (simp add: step Let_def Cons(2) [symmetric] s1 [symmetric] t1 pingsUsed_def
            w2_def [symmetric] s2 [symmetric] t2)
    next
      case nge: False
      with False Cons(1) [OF s2, of "f + 1"] used(2) [of "snd (pingLoop L e t (f + 1) w2)"]
      show ?thesis
        by (simp add: step Let_def Cons(2) [symmetric] s2 [symmetric] t2 w2_def [symmetric]
            replicate_app_Cons_same)
    qed
  qed
qed

lemma pingLoop_same_script:
  assumes "script v = script w"
  shows "fst (pingLoop L e t f v) = fst (pingLoop L e t f w)
     \<and> script (snd (pingLoop L e t f v)) = script (snd (pingLoop L e t f w))
     \<and> pingsUsed v (snd (pingLoop L e t f v)) = pingsUsed w (snd (pingLoop L e t f w))"
proof -
  have "length (script (snd (pingLoop L e t f v))) = length (script (snd (pingLoop L e t f w)))"
    using pingLoop_downAt [of L e t f v] pingLoop_downAt [of L e t f w] assms
    by (simp split: option.splits)
  then have u: "pingsUsed v (snd (pingLoop L e t f v)) = pingsUsed w (snd (pingLoop L e t f w))"
    using assms by (simp add: pingsUsed_def)
  moreover have "fst (pingLoop L e t f v) = fst (pingLoop L e t f w)"
    using pingLoop_downAt [of L e t f v] pingLoop_downAt [of L e t f w] assms by simp
  moreover have "script (snd (pingLoop L e t f v)) = script (snd (pingLoop L e t f w))"
    using pingLoop_frame [of L e t f v] pingLoop_frame [of L e t f w] u assms by simp
  ultimately show ?thesis by simp
qed

lemma pingInterface_same_script:
  assumes "script v = script w"
  shows "fst (pingInterface L e t v) = fst (pingInterface L e t w)
     \<and> script (snd (pingInterface L e t v)) = script (snd (pingInterface L e t w))
     \<and> pingsUsed v (snd (pingInterface L e t v)) = pingsUsed w (snd (pingInterface L e t w))"
  unfolding pingInterface_def
  using pingLoop_same_script [of "logMsg Info (''Pinging endpoint '' @ e) v"
      "logMsg Info (''Pinging endpoint '' @ e) w" L e t 0] assms
  by (simp add: pingsUsed_def)

lemma pingInterface_commands:
  "commands (trace (snd (pingInterface L e t w)))
     = commands (trace w) @ replicate (pingsUsed w (snd (pingInterface L e t w))) (ping e)"
  unfolding pingInterface_def
  using pingLoop_frame [of L e t 0 "logMsg Info (''Pinging endpoint '' @ e) w"]
  by (simp add: pingsUsed_def)

subsection \<open>The route manager\<close>

lemma length_cidrMaskLoop [simp]: "length (cidrMaskLoop l n) = l"
  by (induction l arbitrary: n) auto

lemma ff_minus1: "(0xff :: 8 word) = - 1"
  by simp

lemma bit_partial_mask:
  "n < 8 \<Longrightarrow> j < 8 \<Longrightarrow> bit (NOT (drop_bit n (0xff :: 8 word))) (7 - j) \<longleftrightarrow> j < n"
  by (auto simp add: ff_minus1 bit_simps)

lemma bit_cidrMaskLoop:
  "i < l \<Longrightarrow> j < 8 \<Longrightarrow> bit (cidrMaskLoop l n ! i) (7 - j) \<longleftrightarrow> 8 * i + j < n"
proof (induction l arbitrary: n i)
  case 0
  then show ?case by simp
next
  case (Suc l)
  show ?case
  proof (cases i)
    case 0
    show ?thesis
    proof (cases "n \<ge> 8")
      case True
      with 0 Suc.prems show ?thesis by (simp add: ff_minus1 bit_simps)
    next
      case False
      with 0 Suc.prems show ?thesis by (simp add: bit_partial_mask)
    qed
  next
    case (Suc i')
    with Suc.prems Suc.IH [of i' "n - 8"] Suc.IH [of i' 0] show ?thesis
      by auto
  qed
qed

lemma CIDRMask_32: "0 \<le> p \<Longrightarrow> p \<le> 32 \<Longrightarrow> CIDRMask p 32 = cidrMaskLoop 4 (nat p)"
  by (simp add: CIDRMask_def)

lemma CIDRMask_invalid: "p < 0 \<or> 32 < p \<Longrightarrow> CIDRMask p 32 = []"
  by (auto simp: CIDRMask_def)

lemma Mask_v4:
  "length m = 4 \<Longrightarrow> Mask (v4InV6Prefix @ [a, b, c, d]) m = map2 (AND) [a, b, c, d] m"
  by (simp add: Mask_def v4InV6Prefix_def)

lemma Mask_nil: "ip \<noteq> [] \<Longrightarrow> Mask ip [] = []"
  by (simp add: Mask_def)

lemma routeCIDR_v4:
  assumes "ParseIP L s = v4InV6Prefix @ [a, b, c, d]" "0 \<le> p" "p \<le> 32"
  shows "\<exists>network. length network = 4
           \<and> routeCIDR L s p = dotted network @ ''/'' @ itoa p
           \<and> (\<forall>k<32. addrBit network k \<longleftrightarrow> (k < nat p \<and> addrBit [a, b, c, d] k))"
proof -
  let ?m = "cidrMaskLoop 4 (nat p)"
  let ?n = "map2 (AND) [a, b, c, d] ?m"
  have len: "length ?n = 4" by simp
  have cidr: "routeCIDR L s p = dotted ?n @ ''/'' @ itoa p"
    using assms len by (simp add: routeCIDR_def CIDRMask_32 Mask_v4 IPString_def del: length_map)
  have bits: "addrBit ?n k \<longleftrightarrow> (k < nat p \<and> addrBit [a, b, c, d] k)" if "k < 32" for k
  proof -
    have i: "k div 8 < 4" and j: "k mod 8 < 8" using that by auto
    have "?n ! (k div 8) = [a, b, c, d] ! (k div 8) AND ?m ! (k div 8)"
      using i by simp
    moreover have "bit (?m ! (k div 8)) (7 - k mod 8) \<longleftrightarrow> 8 * (k div 8) + k mod 8 < nat p"
      using bit_cidrMaskLoop [OF i j] by simp
    ultimately show ?thesis
      by (auto simp: addrBit_def bit_and_iff)
  qed
  from len cidr bits show ?thesis by blast
qed

lemma routeCIDR_invalid_prefix:
  "p < 0 \<or> 32 < p \<Longrightarrow> ParseIP L s \<noteq> [] \<Longrightarrow> routeCIDR L s p = ''<nil>/'' @ itoa p"
  by (simp add: routeCIDR_def CIDRMask_invalid Mask_nil IPString_def)

lemma replaceRoute_invalid:
  "ParseIP L s = [] \<Longrightarrow>
   replaceRoute L s p ifn gw w =
     (Return (Some (Errorf (''invalid IP address: '' @ s))),
      logMsg Error (''invalid IP address: '' @ s) w)"
  by (simp add: replaceRoute_def)

lemma replaceRoute_command:
  "ParseIP L s \<noteq> [] \<Longrightarrow> script w = r # rs \<Longrightarrow>
   commands (trace (snd (replaceRoute L s p ifn gw w)))
     = commands (trace w) @ [routeReplace (routeCIDR L s p) gw ifn]
   \<and> script (snd (replaceRoute L s p ifn gw w)) = rs
   \<and> fst (replaceRoute L s p ifn gw w)
       = Return (case snd r of
                   None \<Rightarrow> None
                 | Some e \<Rightarrow> Some (Errorf (''failed to replace route: '' @ errorString e
                                            @ '', output: '' @ trimSpace L (fst r))))"
  by (cases r) (simp add: replaceRoute_def Let_def exec_def routeCIDR_def routeReplace_def logMsg_def
      split: option.splits)

text \<open>
  Claim C7. For every endpoint that \<open>net.ParseIP\<close> does not parse, \<open>replaceRoute\<close>
  returns the error \<open>invalid IP address\<close> and runs no command at all: the commands of
  the trace and the script are as they were.
\<close>

theorem replaceRoute_invalid_address:
  assumes "ParseIP L s = []"
  shows "fst (replaceRoute L s p ifn gw w) = Return (Some (Errorf (''invalid IP address: '' @ s)))
     \<and> commands (trace (snd (replaceRoute L s p ifn gw w))) = commands (trace w)
     \<and> script (snd (replaceRoute L s p ifn gw w)) = script w"
  using assms by (simp add: replaceRoute_invalid)

text \<open>The endpoint \<open>999.999.999.999\<close> is refused and no command is run.\<close>

theorem replaceRoute_invalid_address_witness:
  "ParseIP lib0 ''999.999.999.999'' = []
   \<and> fst (replaceRoute lib0 ''999.999.999.999'' 24 ''wlan0'' ''192.168.1.1'' (world0 [silentOK]))
       = Return (Some (Errorf ''invalid IP address: 999.999.999.999''))
   \<and> commands (trace (snd (replaceRoute lib0 ''999.999.999.999'' 24 ''wlan0'' ''192.168.1.1''
                              (world0 [silentOK])))) = []
   \<and> script (snd (replaceRoute lib0 ''999.999.999.999'' 24 ''wlan0'' ''192.168.1.1''
                     (world0 [silentOK]))) = [silentOK]"
proof -
  have h: "ParseIP lib0 ''999.999.999.999'' = []" by code_simp
  show ?thesis
    using h replaceRoute_invalid_address [OF h, of 24 "''wlan0''" "''192.168.1.1''" "world0 [silentOK]"]
    by (simp add: world0_def)
qed

text \<open>
  Every IPv4 address in dotted form is parsed back to its four bytes: the strings
  \<open>a.b.c.d\<close> are endpoints that \<open>net.ParseIP\<close> accepts.
\<close>

lemma digits_1: "n < 10 \<Longrightarrow> digits n = [digit n]"
  by (subst digits.simps) simp

lemma digits_2: "10 \<le> n \<Longrightarrow> n < 100 \<Longrightarrow> digits n = [digit (n div 10), digit (n mod 10)]"
  by (subst digits.simps) (simp add: digits_1)

lemma digits_3:
  "100 \<le> n \<Longrightarrow> n < 1000 \<Longrightarrow>
   digits n = [digit (n div 100), digit (n div 10 mod 10), digit (n mod 10)]"
  by (subst digits.simps) (simp add: digits_2 div_mult2_eq [symmetric])

lemma of_char_digit: "k < 10 \<Longrightarrow> (of_char (digit k) :: nat) = 48 + k"
  by (simp add: digit_def)

lemma isDigit_digit [simp]: "k < 10 \<Longrightarrow> isDigit (digit k)"
  by (simp add: isDigit_def of_char_digit)

lemma digit_not_sep [simp]:
  "k < 10 \<Longrightarrow> digit k \<noteq> CHR ''.''" "k < 10 \<Longrightarrow> digit k \<noteq> CHR '':''"
  "k < 10 \<Longrightarrow> digit k \<noteq> CHR ''%''"
  using of_char_digit [of k] by auto

lemma field_shape:
  assumes "n < 256"
  obtains "n < 10" "digits n = [digit n]"
  | "10 \<le> n" "n < 100" "digits n = [digit (n div 10), digit (n mod 10)]"
  | "100 \<le> n" "n < 256" "digits n = [digit (n div 100), digit (n div 10 mod 10), digit (n mod 10)]"
proof (cases "n < 10")
  case True
  then show ?thesis using that(1) digits_1 by blast
next
  case False
  show ?thesis
  proof (cases "n < 100")
    case True
    with \<open>\<not> n < 10\<close> show ?thesis using that(2) digits_2 by simp
  next
    case False
    with assms show ?thesis using that(3) digits_3 by simp
  qed
qed

lemma parse_field_dot:
  assumes "n < 256" "length flds < 3"
  shows "parseIPv4Fields prev 0 0 flds (digits n @ CHR ''.'' # c # cs)
       = parseIPv4Fields (Some CHR ''.'') 0 0 (flds @ [of_nat n]) (c # cs)"
  using assms(1)
proof (cases n rule: field_shape)
  case 1
  with assms(2) show ?thesis
    by (simp add: of_char_digit Let_def isDigit_def [of "CHR ''.''"])
next
  case 2
  then have d: "n div 10 < 10" "n mod 10 < 10" "0 < n div 10" by auto
  have n: "n div 10 * 10 + n mod 10 = n" by simp
  from 2 d assms show ?thesis
    by (simp add: of_char_digit Let_def isDigit_def [of "CHR ''.''"] n)
next
  case 3
  then have d: "n div 100 < 10" "n div 10 mod 10 < 10" "n mod 10 < 10" "0 < n div 100" by auto
  have n1: "n div 100 * 10 + n div 10 mod 10 = n div 10"
    by (simp add: div_mult2_eq [of n 10 10, simplified] mult.commute)
  have n: "n div 10 * 10 + n mod 10 = n" by simp
  have le: "n div 10 \<le> 255" using 3 by simp
  from 3 d assms le show ?thesis
    by (simp add: of_char_digit Let_def isDigit_def [of "CHR ''.''"] n1 n)
qed

lemma parse_field_end:
  assumes "n < 256" "length flds = 3"
  shows "parseIPv4Fields prev 0 0 flds (digits n) = Some (flds @ [of_nat n])"
  using assms(1)
proof (cases n rule: field_shape)
  case 1
  with assms(2) show ?thesis
    by (simp add: of_char_digit Let_def)
next
  case 2
  then have d: "n div 10 < 10" "n mod 10 < 10" "0 < n div 10" by auto
  have n: "n div 10 * 10 + n mod 10 = n" by simp
  from 2 d assms show ?thesis
    by (simp add: of_char_digit Let_def n)
next
  case 3
  then have d: "n div 100 < 10" "n div 10 mod 10 < 10" "n mod 10 < 10" "0 < n div 100" by auto
  have n1: "n div 100 * 10 + n div 10 mod 10 = n div 10"
    by (simp add: div_mult2_eq [of n 10 10, simplified] mult.commute)
  have n: "n div 10 * 10 + n mod 10 = n" by simp
  have le: "n div 10 \<le> 255" using 3 by simp
  from 3 d assms le show ?thesis
    by (simp add: of_char_digit Let_def n1 n)
qed

lemma digits_nonempty: "n < 256 \<Longrightarrow> \<exists>c cs. digits n = c # cs"
  by (cases n rule: field_shape) auto

lemma firstSeparator_digits:
  "n < 256 \<Longrightarrow> firstSeparator (digits n @ CHR ''.'' # rest) = Some CHR ''.''"
  by (cases n rule: field_shape) auto

lemma itoa_uint: "itoa (uint (b :: 8 word)) = digits (unat b)"
  by (simp add: itoa_def)

lemma unat_byte: "unat (b :: 8 word) < 256"
  using unsigned_less [of b, where ?'a = nat] by simp

lemma parseIPv4_dotted: "parseIPv4 (dotted [a, b, c, d]) = Some [a, b, c, d]"
proof -
  obtain c1 cs1 where b: "digits (unat b) = c1 # cs1"
    using digits_nonempty [OF unat_byte] by blast
  obtain c2 cs2 where c: "digits (unat c) = c2 # cs2"
    using digits_nonempty [OF unat_byte] by blast
  obtain c3 cs3 where d: "digits (unat d) = c3 # cs3"
    using digits_nonempty [OF unat_byte] by blast
  have "parseIPv4 (dotted [a, b, c, d])
      = parseIPv4Fields None 0 0 []
          (digits (unat a) @ CHR ''.'' # c1 # (cs1 @ CHR ''.'' # c2 # (cs2 @ CHR ''.'' # c3 # cs3)))"
    by (simp add: parseIPv4_def dotted_def itoa_uint b c d)
  also have "\<dots> = parseIPv4Fields (Some CHR ''.'') 0 0 [a]
          (digits (unat b) @ CHR ''.'' # c2 # (cs2 @ CHR ''.'' # c3 # cs3))"
    by (simp add: parse_field_dot [OF unat_byte] b)
  also have "\<dots> = parseIPv4Fields (Some CHR ''.'') 0 0 [a, b]
          (digits (unat c) @ CHR ''.'' # c3 # cs3)"
    by (simp add: parse_field_dot [OF unat_byte] c)
  also have "\<dots> = parseIPv4Fields (Some CHR ''.'') 0 0 [a, b, c] (digits (unat d))"
    by (simp add: parse_field_dot [OF unat_byte] d)
  also have "\<dots> = Some [a, b, c, d]"
    by (simp add: parse_field_end [OF unat_byte])
  finally show ?thesis .
qed

lemma ParseIP_dotted: "ParseIP L (dotted [a, b, c, d]) = v4InV6Prefix @ [a, b, c, d]"
proof -
  have "firstSeparator (dotted [a, b, c, d]) = Some CHR ''.''"
    by (simp add: dotted_def itoa_uint firstSeparator_digits [OF unat_byte])
  then show ?thesis
    by (simp add: ParseIP_def parseIPv4_dotted)
qed

lemma itoa_prefix:
  "0 \<le> p \<Longrightarrow> p \<le> 32 \<Longrightarrow>
   itoa p = (if p < 10 then [char_of (48 + nat p)]
             else [char_of (48 + nat p div 10), char_of (48 + nat p mod 10)])"
  by (auto simp: itoa_def digits_1 digits_2 digit_def)

lemma routeCIDR_v4_text:
  assumes "ParseIP L s = v4InV6Prefix @ [a, b, c, d]" "0 \<le> p" "p \<le> 32"
  shows "\<exists>network. length network = 4
           \<and> routeCIDR L s p = dotted network @ ''/'' @ itoa p
           \<and> ParseIP L (dotted network) = v4InV6Prefix @ network
           \<and> (\<forall>k<32. addrBit network k \<longleftrightarrow> (k < nat p \<and> addrBit [a, b, c, d] k))"
proof -
  from routeCIDR_v4 [OF assms] obtain network where n: "length network = 4"
    "routeCIDR L s p = dotted network @ ''/'' @ itoa p"
    "\<forall>k<32. addrBit network k \<longleftrightarrow> (k < nat p \<and> addrBit [a, b, c, d] k)"
    by blast
  from n(1) obtain a' b' c' d' where "network = [a', b', c', d']"
    by (auto simp: length_Suc_conv numeral_eq_Suc)
  then have "ParseIP L (dotted network) = v4InV6Prefix @ network"
    by (simp add: ParseIP_dotted)
  with n show ?thesis by blast
qed

lemma digits_byteText: "digits (unat b) = byteText b"
  using unat_byte [of b]
  by (cases "unat b" rule: field_shape) (simp_all add: byteText_def digit_def Let_def)

lemma dotted_text:
  "length network = 4 \<Longrightarrow>
   dotted network = byteText (network ! 0) @ ''.'' @ byteText (network ! 1) @ ''.''
                      @ byteText (network ! 2) @ ''.'' @ byteText (network ! 3)"
  by (simp add: dotted_def itoa_uint digits_byteText)

text \<open>
  Claim C5. The CIDR notation is a function of the endpoint and the prefix length alone:
  whatever the world, \<open>replaceRoute\<close> runs \<open>ip route replace\<close> on
  \<open>routeCIDR L s p\<close>. For an endpoint that parses as the IPv4 address \<open>a.b.c.d\<close>
  (by \<open>ParseIP_dotted\<close> every dotted address does) and a prefix length \<open>p\<close> from 0
  to 32, there is a four-byte network address that has bit \<open>k\<close> set exactly when
  \<open>k < p\<close> and the endpoint has bit \<open>k\<close> set (the endpoint masked with the prefix),
  and the CIDR notation is the text of its four bytes in decimal, separated by dots, then
  a slash and the one or two decimal digits of \<open>p\<close>. That text is what \<open>IP.String\<close>
  and \<open>%d\<close> print, and \<open>net.ParseIP\<close> reads its address back as the network
  address.
\<close>

theorem replaceRoute_cidr:
  assumes "ParseIP L s = v4InV6Prefix @ [a, b, c, d]" "0 \<le> p" "p \<le> 32"
  shows "(\<forall>w r rs. script w = r # rs \<longrightarrow>
            commands (trace (snd (replaceRoute L s p ifn gw w)))
              = commands (trace w)
                  @ [[''ip'', ''route'', ''replace'', routeCIDR L s p, ''via'', gw, ''dev'', ifn]])
     \<and> (\<exists>network. length network = 4
           \<and> (\<forall>k<32. addrBit network k \<longleftrightarrow> (k < nat p \<and> addrBit [a, b, c, d] k))
           \<and> routeCIDR L s p
               = byteText (network ! 0) @ ''.'' @ byteText (network ! 1) @ ''.''
                   @ byteText (network ! 2) @ ''.'' @ byteText (network ! 3) @ ''/''
                   @ (if p < 10 then [char_of (48 + nat p)]
                      else [char_of (48 + nat p div 10), char_of (48 + nat p mod 10)])
           \<and> routeCIDR L s p = dotted network @ ''/'' @ itoa p
           \<and> ParseIP L (dotted network) = v4InV6Prefix @ network)"
proof -
  have ne: "ParseIP L s \<noteq> []" using assms(1) by simp
  from routeCIDR_v4_text [OF assms] obtain network where n: "length network = 4"
    "routeCIDR L s p = dotted network @ ''/'' @ itoa p"
    "ParseIP L (dotted network) = v4InV6Prefix @ network"
    "\<forall>k<32. addrBit network k \<longleftrightarrow> (k < nat p \<and> addrBit [a, b, c, d] k)"
    by blast
  have "routeCIDR L s p
               = byteText (network ! 0) @ ''.'' @ byteText (network ! 1) @ ''.''
                   @ byteText (network ! 2) @ ''.'' @ byteText (network ! 3) @ ''/''
                   @ (if p < 10 then [char_of (48 + nat p)]
                      else [char_of (48 + nat p div 10), char_of (48 + nat p mod 10)])"
    unfolding n(2) dotted_text [OF n(1)] itoa_prefix [OF assms(2,3)] by simp
  with n ne show ?thesis
    using replaceRoute_command [of L s _ _ _ p ifn gw]
    unfolding routeReplace_def by blast
qed

text \<open>
  The endpoint \<open>8.8.8.8\<close> with prefix length 24 gives \<open>8.8.8.0/24\<close>, and
  \<open>10.255.255.255\<close> with prefix length 9 gives \<open>10.128.0.0/9\<close>.
\<close>

theorem replaceRoute_cidr_witness:
  "ParseIP lib0 ''8.8.8.8'' = v4InV6Prefix @ [8, 8, 8, 8] \<and> (0::int) \<le> 24 \<and> (24::int) \<le> 32
   \<and> routeCIDR lib0 ''8.8.8.8'' 24 = ''8.8.8.0/24''
   \<and> commands (trace (snd (replaceRoute lib0 ''8.8.8.8'' 24 ''wlan0'' ''192.168.1.1''
                              (world0 [silentOK]))))
       = [[''ip'', ''route'', ''replace'', ''8.8.8.0/24'', ''via'', ''192.168.1.1'', ''dev'', ''wlan0'']]
   \<and> ParseIP lib0 ''10.255.255.255'' = v4InV6Prefix @ [10, 255, 255, 255]
   \<and> (0::int) \<le> 9 \<and> (9::int) \<le> 32
   \<and> routeCIDR lib0 ''10.255.255.255'' 9 = ''10.128.0.0/9''
   \<and> commands (trace (snd (replaceRoute lib0 ''10.255.255.255'' 9 ''wlan0'' ''192.168.1.1''
                              (world0 [silentOK]))))
       = [[''ip'', ''route'', ''replace'', ''10.128.0.0/9'', ''via'', ''192.168.1.1'', ''dev'', ''wlan0'']]"
proof -
  have h: "ParseIP lib0 ''8.8.8.8'' = v4InV6Prefix @ [8, 8, 8, 8]" by code_simp
  have c: "routeCIDR lib0 ''8.8.8.8'' 24 = ''8.8.8.0/24''" by code_simp
  have h': "ParseIP lib0 ''10.255.255.255'' = v4InV6Prefix @ [10, 255, 255, 255]" by code_simp
  have c': "routeCIDR lib0 ''10.255.255.255'' 9 = ''10.128.0.0/9''" by code_simp
  have s: "script (world0 [silentOK]) = silentOK # []" by (simp add: world0_def)
  from replaceRoute_cidr [OF h, of 24 "''wlan0''" "''192.168.1.1''"]
  have 1: "commands (trace (snd (replaceRoute lib0 ''8.8.8.8'' 24 ''wlan0'' ''192.168.1.1''
                              (world0 [silentOK]))))
       = commands (trace (world0 [silentOK]))
           @ [[''ip'', ''route'', ''replace'', routeCIDR lib0 ''8.8.8.8'' 24, ''via'',
               ''192.168.1.1'', ''dev'', ''wlan0'']]"
    using s by simp
  from replaceRoute_cidr [OF h', of 9 "''wlan0''" "''192.168.1.1''"]
  have 2: "commands (trace (snd (replaceRoute lib0 ''10.255.255.255'' 9 ''wlan0'' ''192.168.1.1''
                              (world0 [silentOK]))))
       = commands (trace (world0 [silentOK]))
           @ [[''ip'', ''route'', ''replace'', routeCIDR lib0 ''10.255.255.255'' 9, ''via'',
               ''192.168.1.1'', ''dev'', ''wlan0'']]"
    using s by simp
  from h c h' c' 1 2 show ?thesis by (simp add: world0_def)
qed

text \<open>
  Claim C9, as amended. \<open>replaceRoute\<close> does not validate the prefix length. For a
  prefix length outside 0 to 32 and an endpoint that parses, \<open>net.CIDRMask\<close> returns
  nil, the network address is nil, and \<open>replaceRoute\<close> runs \<open>ip route replace\<close>
  on \<open><nil>/p\<close>; it returns an error only if that command fails.
\<close>

theorem replaceRoute_prefix_unchecked:
  assumes "p < 0 \<or> 32 < p" and "ParseIP L s \<noteq> []" and "script w = r # rs"
  shows "commands (trace (snd (replaceRoute L s p ifn gw w)))
           = commands (trace w) @ [routeReplace (''<nil>/'' @ itoa p) gw ifn]
     \<and> fst (replaceRoute L s p ifn gw w)
           = Return (case snd r of
                       None \<Rightarrow> None
                     | Some e \<Rightarrow> Some (Errorf (''failed to replace route: '' @ errorString e
                                                @ '', output: '' @ trimSpace L (fst r))))"
  using replaceRoute_command [OF assms(2,3), of p ifn gw] routeCIDR_invalid_prefix [OF assms(1,2)]
  by simp

text \<open>With prefix length 33 the command is run on \<open><nil>/33\<close>, and refused.\<close>

theorem replaceRoute_prefix_unchecked_witness:
  "((33::int) < 0 \<or> (32::int) < 33) \<and> ParseIP lib0 ''8.8.8.8'' \<noteq> []
   \<and> script (world0 [ipRejected]) = ipRejected # []
   \<and> commands (trace (snd (replaceRoute lib0 ''8.8.8.8'' 33 ''wlan0'' ''192.168.1.1''
                              (world0 [ipRejected]))))
       = [routeReplace ''<nil>/33'' ''192.168.1.1'' ''wlan0'']
   \<and> fst (replaceRoute lib0 ''8.8.8.8'' 33 ''wlan0'' ''192.168.1.1'' (world0 [ipRejected]))
       = Return (Some (Errorf (''failed to replace route: exit status 1, output: '' @ fst ipRejected)))"
proof -
  have h1: "(33::int) < 0 \<or> (32::int) < 33" by simp
  have h2: "ParseIP lib0 ''8.8.8.8'' \<noteq> []" by code_simp
  have h3: "script (world0 [ipRejected]) = ipRejected # []" by (simp add: world0_def)
  have i: "itoa 33 = ''33''" by code_simp
  from replaceRoute_prefix_unchecked [OF h1 h2 h3, of "''wlan0''" "''192.168.1.1''"] h1 h2 h3 i
  show ?thesis
    by (simp add: world0_def ipRejected_def lib0_def)
qed

text \<open>
  Claim C9 as stated fails: with prefix lengths 33 and -1 the route-replace command is
  run, and the error returned is that of the command the system refused, not one of
  validation.
\<close>

theorem replaceRoute_prefix_33_runs_command:
  "commands (trace (snd (replaceRoute lib0 ''8.8.8.8'' 33 ''wlan0'' ''192.168.1.1''
                          (world0 [ipRejected]))))
     = [[''ip'', ''route'', ''replace'', ''<nil>/33'', ''via'', ''192.168.1.1'', ''dev'', ''wlan0'']]
   \<and> fst (replaceRoute lib0 ''8.8.8.8'' 33 ''wlan0'' ''192.168.1.1'' (world0 [ipRejected]))
     = Return (Some (Errorf (''failed to replace route: exit status 1, output: ''
                             @ ''Error: inet prefix is expected rather than <nil>/33.'')))
   \<and> commands (trace (snd (replaceRoute lib0 ''8.8.8.8'' (- 1) ''wlan0'' ''192.168.1.1''
                          (world0 [ipRejected]))))
     = [[''ip'', ''route'', ''replace'', ''<nil>/-1'', ''via'', ''192.168.1.1'', ''dev'', ''wlan0'']]"
  by code_simp

subsection \<open>The associator\<close>


lemma pollLoop_error:
  "script w = (out, Some e) # rs \<Longrightarrow>
   pollLoop L i w =
     (Return ('''', None),
      logMsg Error (''Error getting default route after connecting to WiFi: '' @ errorString e)
        (w\<lparr>script := rs, trace := trace w @ [Sleep 1, Exec (routeShow i) (out, Some e)]\<rparr>))"
  by (subst pollLoop.simps) (simp add: exec_def sleep_def routeShow_def)



lemma pollLoop_probe:
  "script w = (out, None) # r # rs \<Longrightarrow> 3 \<le> length (Split out CHR '' '') \<Longrightarrow>
   pollLoop L i w =
     (let route = Split out CHR '' '' ! 2;
          w3 = w\<lparr>script := rs,
                 trace := trace w @ [Sleep 1, Exec (routeShow i) (out, None),
                   Log Info (''Pinging default router: '' @ route), Exec (ping route) r]\<rparr>
      in if pingResult L r \<noteq> - 1 then (Return (route, None), w3) else pollLoop L i w3)"
  by (subst pollLoop.simps)
     (simp add: exec_def sleep_def routeShow_def Let_def pingIP_def logMsg_def ping_def)


lemma connectToWiFi_join_failed:
  "script w = (out, Some e) # rs \<Longrightarrow>
   connectToWiFi L i b p w =
     (Return ('''', Some e),
      w\<lparr>script := rs, trace := trace w @ [Exec (wifiConnect i b p) (out, Some e)]\<rparr>)"
  by (simp add: connectToWiFi_def exec_def wifiConnect_def)







text \<open>
  The polling loop of the older version has the same index: after its three commands
  have succeeded, a query output of fewer than three pieces makes it panic.
\<close>

lemma pollLoop_v1_short:
  "script w = (out, None) # rs \<Longrightarrow> length (Split out CHR '' '') < 3 \<Longrightarrow>
   pollLoop_v1 L i w =
     (Panic (''runtime error: index out of range [2] with length ''
             @ itoa (int (length (Split out CHR '' '')))),
      w\<lparr>script := rs, trace := trace w @ [Sleep 1, Exec (routeShow i) (out, None)]\<rparr>)"
  by (subst pollLoop_v1.simps) (simp add: exec_def sleep_def routeShow_def Let_def)

lemma connectToWiFi_v1_index_out_of_range:
  assumes "script w = (o1, None) # (o2, None) # (o3, None) # (out, None) # rest"
    and "length (Split out CHR '' '') < 3"
  shows "fst (connectToWiFi_v1 L i b p w)
       = Panic (''runtime error: index out of range [2] with length ''
                @ itoa (int (length (Split out CHR '' ''))))
     \<and> script (snd (connectToWiFi_v1 L i b p w)) = rest"
  using assms
  by (simp add: connectToWiFi_v1_def exec_def logMsg_def pollLoop_v1_short)

text \<open>
  Claim C3, as amended. A polling iteration whose query succeeds with three pieces or
  more, the third of which does not answer a \<open>ping\<close>, returns nothing: the loop goes on
  from the world after the iteration, with the next sleep of a second and the next query.
  A polling iteration whose query command fails ends the polling: the error is logged and
  the loop returns the empty string and no error.
\<close>

theorem pollLoop_iteration:
  "(script w = (out, None) # r # rs \<and> 3 \<le> length (Split out CHR '' '') \<and> pingResult L r = - 1 \<longrightarrow>
      pollLoop L i w
        = pollLoop L i
            (w\<lparr>script := rs,
               trace := trace w @ [Sleep 1, Exec (routeShow i) (out, None),
                 Log Info (''Pinging default router: '' @ Split out CHR '' '' ! 2),
                 Exec (ping (Split out CHR '' '' ! 2)) r]\<rparr>))
   \<and> (script w = (out, Some e) # rs \<longrightarrow>
      pollLoop L i w
        = (Return ('''', None),
           logMsg Error (''Error getting default route after connecting to WiFi: '' @ errorString e)
             (w\<lparr>script := rs, trace := trace w @ [Sleep 1, Exec (routeShow i) (out, Some e)]\<rparr>)))"
  by (simp add: pollLoop_probe pollLoop_error Let_def)

text \<open>
  A default route with no gateway (\<open>default dev wlan0 scope link\<close>) makes the loop
  \<open>ping\<close> the interface name, which fails; the next iteration finds 192.168.1.1.
\<close>

theorem pollLoop_iteration_witness:
  "script (world0 [linkLine, pingFail, routeLine, pingOK])
     = (fst linkLine, None) # pingFail # [routeLine, pingOK]
   \<and> 3 \<le> length (Split (fst linkLine) CHR '' '') \<and> pingResult lib0 pingFail = - 1
   \<and> Split (fst linkLine) CHR '' '' ! 2 = ''wlan0''
   \<and> pollLoop lib0 ''wlan0'' (world0 [linkLine, pingFail, routeLine, pingOK])
       = pollLoop lib0 ''wlan0''
           \<lparr>script = [routeLine, pingOK],
              trace = [Sleep 1, Exec (routeShow ''wlan0'') linkLine,
                       Log Info ''Pinging default router: wlan0'', Exec (ping ''wlan0'') pingFail]\<rparr>
   \<and> fst (pollLoop lib0 ''wlan0'' (world0 [linkLine, pingFail, routeLine, pingOK]))
       = Return (''192.168.1.1'', None)"
proof -
  let ?w = "world0 [linkLine, pingFail, routeLine, pingOK]"
  have h1: "script ?w = (fst linkLine, None) # pingFail # [routeLine, pingOK]"
    by (simp add: world0_def linkLine_def)
  have h2: "3 \<le> length (Split (fst linkLine) CHR '' '')" by code_simp
  have h3: "pingResult lib0 pingFail = - 1" by code_simp
  have t: "Split (fst linkLine) CHR '' '' ! 2 = ''wlan0''" by code_simp
  have l: "(fst linkLine, None) = linkLine" by (simp add: linkLine_def)
  have r: "fst (pollLoop lib0 ''wlan0'' ?w) = Return (''192.168.1.1'', None)" by code_simp
  from pollLoop_iteration [of ?w "fst linkLine" pingFail "[routeLine, pingOK]" lib0 "''wlan0''"]
    h1 h2 h3
  have "pollLoop lib0 ''wlan0'' ?w
      = pollLoop lib0 ''wlan0''
          (?w\<lparr>script := [routeLine, pingOK],
              trace := trace ?w @ [Sleep 1, Exec (routeShow ''wlan0'') (fst linkLine, None),
                Log Info (''Pinging default router: '' @ Split (fst linkLine) CHR '' '' ! 2),
                Exec (ping (Split (fst linkLine) CHR '' '' ! 2)) pingFail]\<rparr>)"
    by blast
  then have "pollLoop lib0 ''wlan0'' ?w
       = pollLoop lib0 ''wlan0''
           \<lparr>script = [routeLine, pingOK],
              trace = [Sleep 1, Exec (routeShow ''wlan0'') linkLine,
                       Log Info ''Pinging default router: wlan0'', Exec (ping ''wlan0'') pingFail]\<rparr>"
    by (simp add: t l) (simp add: world0_def)
  with h1 h2 h3 t r show ?thesis by simp
qed

text \<open>
  Claim C3 as stated fails: when the query command fails, \<open>connectToWiFi\<close> returns the
  empty string at once, although the replies that follow would have given a gateway.
\<close>

theorem connectToWiFi_query_failure_ends_polling:
  "fst (connectToWiFi lib0 ''wlan0'' ''net'' ''pw'' (world0 [silentOK, noDevice, routeLine, pingOK]))
     = Return ('''', None)
   \<and> script (snd (connectToWiFi lib0 ''wlan0'' ''net'' ''pw''
                     (world0 [silentOK, noDevice, routeLine, pingOK])))
     = [routeLine, pingOK]
   \<and> fst (connectToWiFi lib0 ''wlan0'' ''net'' ''pw'' (world0 [silentOK, routeLine, pingOK]))
     = Return (''192.168.1.1'', None)"
  by code_simp




subsection \<open>The orchestrator\<close>

lemma Run_unfold:
  "Run L fs w =
     bind (pingInterface L (flag_endpoint fs) 5 (announce fs w)) (\<lambda>_ w.
       bind (connectToWiFi L (flag_wifi_if fs) (flag_wifi_ssid fs) (flag_wifi_password fs)
               (logMsg Error (''Ping toward '' @ flag_endpoint fs @ '' endpoint failed'') w))
         (\<lambda>(router, err) w.
            case err of
              Some e \<Rightarrow> (Exit 1, logMsg Error (''Error connecting to WiFi: '' @ errorString e) w)
            | None \<Rightarrow>
                bind (replaceRoute L (flag_endpoint fs) 24 (flag_wifi_if fs) router
                        (logMsg Info (''Successfully connected to WiFi with SSID ''
                                      @ flag_wifi_ssid fs) w))
                  (\<lambda>_ w.
                     bind (pingInterface L (flag_endpoint fs) 5
                             (logMsg Info (''Successfully changed default route to ''
                                           @ flag_wifi_if fs) w))
                       (\<lambda>_ w. (Return (), w)))))"
  by (simp add: Run_def announce_def Let_def GetString_def)

text \<open>
  Claim C6. When the join command fails, \<open>connectToWiFi\<close> returns its error at once,
  having run that one command; and when the monitor of the primary path has returned and
  the next reply of the system, the one to the join, is a failure, \<open>Run\<close> exits with
  status 1 having run the probes of the monitor and the join only: no route is replaced.
\<close>

theorem join_failure_is_fatal:
  "(script w = (out, Some e) # rest \<longrightarrow>
      connectToWiFi L i b p w
        = (Return ('''', Some e),
           w\<lparr>script := rest, trace := trace w @ [Exec (wifiConnect i b p) (out, Some e)]\<rparr>))
   \<and> (fst (pingInterface L (flag_endpoint fs) 5 w) = Return r
        \<and> script (snd (pingInterface L (flag_endpoint fs) 5 w)) = (out, Some e) # rest \<longrightarrow>
      fst (Run L fs w) = Exit 1
      \<and> script (snd (Run L fs w)) = rest
      \<and> commands (trace (snd (Run L fs w)))
          = commands (trace w)
              @ replicate (pingsUsed w (snd (pingInterface L (flag_endpoint fs) 5 w)))
                  (ping (flag_endpoint fs))
              @ [wifiConnect (flag_wifi_if fs) (flag_wifi_ssid fs) (flag_wifi_password fs)])"
proof (intro conjI impI)
  assume "script w = (out, Some e) # rest"
  then show "connectToWiFi L i b p w
        = (Return ('''', Some e),
           w\<lparr>script := rest, trace := trace w @ [Exec (wifiConnect i b p) (out, Some e)]\<rparr>)"
    by (rule connectToWiFi_join_failed)
next
  let ?e = "flag_endpoint fs"
  assume a: "fst (pingInterface L ?e 5 w) = Return r
        \<and> script (snd (pingInterface L ?e 5 w)) = (out, Some e) # rest"
  define w1 where "w1 = snd (pingInterface L ?e 5 (announce fs w))"
  note same = pingInterface_same_script [of "announce fs w" w L ?e 5, OF script_announce]
  have m: "pingInterface L ?e 5 (announce fs w) = (Return r, w1)"
    using same a by (simp add: w1_def eq_fst_snd)
  have s1: "script w1 = (out, Some e) # rest"
    using same a by (simp add: w1_def)
  have c1: "commands (trace w1)
      = commands (trace w) @ replicate (pingsUsed w (snd (pingInterface L ?e 5 w))) (ping ?e)"
    using pingInterface_commands [of L ?e 5 "announce fs w"] same
    by (simp add: w1_def)
  have cf: "connectToWiFi L i b p (logMsg Error m w1)
      = (Return ('''', Some e),
         (logMsg Error m w1)\<lparr>script := rest,
            trace := trace (logMsg Error m w1) @ [Exec (wifiConnect i b p) (out, Some e)]\<rparr>)"
    for i b p m
    by (rule connectToWiFi_join_failed) (simp add: s1)
  show "fst (Run L fs w) = Exit 1" "script (snd (Run L fs w)) = rest"
    "commands (trace (snd (Run L fs w)))
          = commands (trace w)
              @ replicate (pingsUsed w (snd (pingInterface L ?e 5 w))) (ping ?e)
              @ [wifiConnect (flag_wifi_if fs) (flag_wifi_ssid fs) (flag_wifi_password fs)]"
    by (simp_all add: Run_unfold m cf c1)
qed

text \<open>Five lost probes, then a join that is refused.\<close>

theorem join_failure_is_fatal_witness:
  "fst (pingInterface lib0 (flag_endpoint flags0) 5
          (world0 [pingFail, pingFail, pingFail, pingFail, pingFail, joinRejected, silentOK]))
     = Return (- 1)
   \<and> script (snd (pingInterface lib0 (flag_endpoint flags0) 5
          (world0 [pingFail, pingFail, pingFail, pingFail, pingFail, joinRejected, silentOK])))
     = joinRejected # [silentOK]
   \<and> fst (Run lib0 flags0
            (world0 [pingFail, pingFail, pingFail, pingFail, pingFail, joinRejected, silentOK]))
     = Exit 1
   \<and> script (snd (Run lib0 flags0
            (world0 [pingFail, pingFail, pingFail, pingFail, pingFail, joinRejected, silentOK])))
     = [silentOK]
   \<and> commands (trace (snd (Run lib0 flags0
            (world0 [pingFail, pingFail, pingFail, pingFail, pingFail, joinRejected, silentOK]))))
     = [ping ''8.8.8.8'', ping ''8.8.8.8'', ping ''8.8.8.8'', ping ''8.8.8.8'', ping ''8.8.8.8'',
        wifiConnect ''wlan0'' ''net'' ''pw'']"
proof -
  let ?w = "world0 [pingFail, pingFail, pingFail, pingFail, pingFail, joinRejected, silentOK]"
  have h1: "fst (pingInterface lib0 (flag_endpoint flags0) 5 ?w) = Return (- 1)"
    by code_simp
  have h2: "script (snd (pingInterface lib0 (flag_endpoint flags0) 5 ?w))
      = (fst joinRejected, Some (ExecError ''exit status 4'')) # [silentOK]"
    by code_simp
  have u: "pingsUsed ?w (snd (pingInterface lib0 (flag_endpoint flags0) 5 ?w)) = 5"
    by code_simp
  have j: "(fst joinRejected, Some (ExecError ''exit status 4'')) = joinRejected"
    by (simp add: joinRejected_def)
  from join_failure_is_fatal [of ?w "fst joinRejected" "ExecError ''exit status 4''" "[silentOK]"
      lib0 "''wlan0''" "''net''" "''pw''" flags0 "- 1"] h1 h2
  have "fst (Run lib0 flags0 ?w) = Exit 1
      \<and> script (snd (Run lib0 flags0 ?w)) = [silentOK]
      \<and> commands (trace (snd (Run lib0 flags0 ?w)))
          = commands (trace ?w)
              @ replicate (pingsUsed ?w (snd (pingInterface lib0 (flag_endpoint flags0) 5 ?w)))
                  (ping (flag_endpoint flags0))
              @ [wifiConnect (flag_wifi_if flags0) (flag_wifi_ssid flags0) (flag_wifi_password flags0)]"
    by blast
  with h1 h2 show ?thesis
    by (simp add: u j) (simp add: flags0_def world0_def numeral_eq_Suc)
qed

text \<open>
  Claim C2 fails on the code: \<open>Run\<close> drops what \<open>replaceRoute\<close> returns. When the
  system refuses the route change, and when the endpoint does not parse, \<open>Run\<close> goes on
  to monitor the endpoint again and returns normally.
\<close>

theorem Run_continues_after_route_failure:
  "fst (Run lib0 flags0
         (world0 [pingFail, pingFail, pingFail, pingFail, pingFail, silentOK, routeLine, pingOK,
                  routeRejected, pingFail, pingFail, pingFail, pingFail, pingFail]))
     = Return ()
   \<and> commands (trace (snd (Run lib0 flags0
         (world0 [pingFail, pingFail, pingFail, pingFail, pingFail, silentOK, routeLine, pingOK,
                  routeRejected, pingFail, pingFail, pingFail, pingFail, pingFail]))))
     = [ping ''8.8.8.8'', ping ''8.8.8.8'', ping ''8.8.8.8'', ping ''8.8.8.8'', ping ''8.8.8.8'',
        wifiConnect ''wlan0'' ''net'' ''pw'', routeShow ''wlan0'', ping ''192.168.1.1'',
        routeReplace ''8.8.8.0/24'' ''192.168.1.1'' ''wlan0'',
        ping ''8.8.8.8'', ping ''8.8.8.8'', ping ''8.8.8.8'', ping ''8.8.8.8'', ping ''8.8.8.8'']
   \<and> fst (Run lib0 (flags0\<lparr>flag_endpoint := ''999.999.999.999''\<rparr>)
         (world0 [pingFail, pingFail, pingFail, pingFail, pingFail, silentOK, routeLine, pingOK,
                  pingFail, pingFail, pingFail, pingFail, pingFail]))
     = Return ()
   \<and> commands (trace (snd (Run lib0 (flags0\<lparr>flag_endpoint := ''999.999.999.999''\<rparr>)
         (world0 [pingFail, pingFail, pingFail, pingFail, pingFail, silentOK, routeLine, pingOK,
                  pingFail, pingFail, pingFail, pingFail, pingFail]))))
     = [ping ''999.999.999.999'', ping ''999.999.999.999'', ping ''999.999.999.999'',
        ping ''999.999.999.999'', ping ''999.999.999.999'',
        wifiConnect ''wlan0'' ''net'' ''pw'', routeShow ''wlan0'', ping ''192.168.1.1'',
        ping ''999.999.999.999'', ping ''999.999.999.999'', ping ''999.999.999.999'',
        ping ''999.999.999.999'', ping ''999.999.999.999'']"
  by code_simp

text \<open>
  Claim C4 fails on the code: \<open>Run\<close> passes the constant 5 to \<open>pingInterface\<close>
  and never reads the value of the flag \<open>retry\<close>. With the flag at 3 and three lost
  probes the monitor of \<open>Run\<close> does not return, where \<open>pingInterface\<close> with
  threshold 3 does.
\<close>

theorem Run_ignores_retry_flag:
  "Run L (fs\<lparr>flag_retry := n\<rparr>) w = Run L fs w
   \<and> fst (pingInterface lib0 ''8.8.8.8'' 3 (world0 [pingFail, pingFail, pingFail, pingOK]))
       = Return (- 1)
   \<and> fst (Run lib0 (flags0\<lparr>flag_retry := 3\<rparr>) (world0 [pingFail, pingFail, pingFail, pingOK]))
       = Running
   \<and> commands (trace (snd (Run lib0 (flags0\<lparr>flag_retry := 3\<rparr>)
                              (world0 [pingFail, pingFail, pingFail, pingOK]))))
       = [ping ''8.8.8.8'', ping ''8.8.8.8'', ping ''8.8.8.8'', ping ''8.8.8.8'']"
proof -
  have "Run L (fs\<lparr>flag_retry := n\<rparr>) w = Run L fs w"
    by (simp add: Run_def GetString_def)
  moreover have "fst (pingInterface lib0 ''8.8.8.8'' 3 (world0 [pingFail, pingFail, pingFail, pingOK]))
       = Return (- 1)
   \<and> fst (Run lib0 (flags0\<lparr>flag_retry := 3\<rparr>) (world0 [pingFail, pingFail, pingFail, pingOK]))
       = Running
   \<and> commands (trace (snd (Run lib0 (flags0\<lparr>flag_retry := 3\<rparr>)
                              (world0 [pingFail, pingFail, pingFail, pingOK]))))
       = [ping ''8.8.8.8'', ping ''8.8.8.8'', ping ''8.8.8.8'', ping ''8.8.8.8'']"
    by code_simp
  ultimately show ?thesis by simp
qed

end
